theory Spec2Isabelle
  imports Complex_Main "HOL-Library.Char_ord" "HOL-Library.List_Lexorder"
    "HOL-Library.Product_Lexorder"
begin

section \<open>Python values, dictionaries and errors\<close>

text \<open>
  The records of the pipeline are Python dictionaries read from and written to JSON.
  Their fields hold \<^verbatim>\<open>None\<close>, a string, an int or a float (booleans, lists and nested
  objects do not occur in the records and are left out). A string is the list of its
  bytes in UTF-8. A dictionary is a partial map from field names to values; a field
  bound to \<^verbatim>\<open>None\<close> is \<open>Some PNone\<close>, an absent field is \<open>None\<close>.

  The value of a float is a real number, the negative zero, an infinity or NaN
  (\<open>Fin 0\<close> is the positive zero). Which reals are floats, and how a result is rounded,
  is left to the operations of Python below. The value of an int \<open>i\<close> among the floats
  is \<open>Fin i\<close>.
\<close>

datatype pynum = NInf | Fin real | NegZero | PInf | NaN

text \<open>\<^verbatim>\<open>x == 0\<close> on a float: both zeros are equal to 0.\<close>

definition is_zero :: "pynum \<Rightarrow> bool" where
  "is_zero x = (x = Fin 0 \<or> x = NegZero)"

datatype pyval = PNone | PStr string | PInt int | PFloat pynum

type_synonym stock = "string \<rightharpoonup> pyval"

datatype py_error = TypeError | ValueError | KeyError | AttributeError | OverflowError
  | ZeroDivisionError | BrowserError

text \<open>
  The comparisons of Python on numbers: by value, and false whenever an operand is NaN.
  \<open>num_rank\<close> places the values that are not NaN in their order.
\<close>

fun num_rank :: "pynum \<Rightarrow> nat \<times> real" where
  "num_rank NInf = (0, 0)"
| "num_rank (Fin x) = (1, x)"
| "num_rank NegZero = (1, 0)"
| "num_rank PInf = (2, 0)"
| "num_rank NaN = (3, 0)"

definition num_lt :: "pynum \<Rightarrow> pynum \<Rightarrow> bool" where
  "num_lt a b = (a \<noteq> NaN \<and> b \<noteq> NaN \<and> num_rank a < num_rank b)"

definition num_le :: "pynum \<Rightarrow> pynum \<Rightarrow> bool" where
  "num_le a b = (a \<noteq> NaN \<and> b \<noteq> NaN \<and> num_rank a \<le> num_rank b)"

text \<open>\<^verbatim>\<open>d.get(k)\<close> and \<^verbatim>\<open>d.get(k, default)\<close>.\<close>

definition dict_get :: "stock \<Rightarrow> string \<Rightarrow> pyval" where
  "dict_get d k = (case d k of None \<Rightarrow> PNone | Some v \<Rightarrow> v)"

definition dict_get_default :: "stock \<Rightarrow> string \<Rightarrow> pyval \<Rightarrow> pyval" where
  "dict_get_default d k dflt = (case d k of None \<Rightarrow> dflt | Some v \<Rightarrow> v)"

text \<open>Truthiness of a value, as tested by \<^verbatim>\<open>if v:\<close>.\<close>

fun truthy :: "pyval \<Rightarrow> bool" where
  "truthy PNone = False"
| "truthy (PStr s) = (s \<noteq> [])"
| "truthy (PInt i) = (i \<noteq> 0)"
| "truthy (PFloat x) = (\<not> is_zero x)"

subsection \<open>The built-in functions\<close>

text \<open>
  The program calls these functions of Python and does not define them. They are a
  parameter of every function below that calls one, and every theorem holds for
  whatever they compute:
  \<^item> \<open>float_str\<close> is \<^verbatim>\<open>float(s)\<close> on a string, \<open>None\<close> when it raises \<^verbatim>\<open>ValueError\<close>;
  \<^item> \<open>float_int\<close> is \<^verbatim>\<open>float(i)\<close> on an int, \<open>None\<close> when it raises \<^verbatim>\<open>OverflowError\<close>;
  \<^item> \<open>str_int\<close> and \<open>str_float\<close> are \<^verbatim>\<open>str(x)\<close> on an int and on a float;
  \<^item> \<open>float_div\<close> is \<^verbatim>\<open>a / b\<close> on floats for a divisor that is not zero, and
    \<open>float_mul\<close> is \<^verbatim>\<open>a * b\<close>;
  \<^item> \<open>str_strip\<close> is \<^verbatim>\<open>s.strip()\<close>.
\<close>

record builtins =
  float_str :: "string \<Rightarrow> pynum option"
  float_int :: "int \<Rightarrow> pynum option"
  str_int :: "int \<Rightarrow> string"
  str_float :: "pynum \<Rightarrow> string"
  float_div :: "pynum \<Rightarrow> pynum \<Rightarrow> pynum"
  float_mul :: "pynum \<Rightarrow> pynum \<Rightarrow> pynum"
  str_strip :: "string \<Rightarrow> string"

text \<open>\<^verbatim>\<open>float(v)\<close> on a value: \<^verbatim>\<open>None\<close> raises \<^verbatim>\<open>TypeError\<close>, a float is returned as it is.\<close>

fun py_float_val :: "builtins \<Rightarrow> pyval \<Rightarrow> py_error + pynum" where
  "py_float_val B PNone = Inl TypeError"
| "py_float_val B (PStr s) = (case float_str B s of None \<Rightarrow> Inl ValueError | Some x \<Rightarrow> Inr x)"
| "py_float_val B (PInt i) = (case float_int B i of None \<Rightarrow> Inl OverflowError | Some x \<Rightarrow> Inr x)"
| "py_float_val B (PFloat x) = Inr x"

text \<open>\<^verbatim>\<open>str(v)\<close>\<close>

fun py_str :: "builtins \<Rightarrow> pyval \<Rightarrow> string" where
  "py_str B PNone = ''None''"
| "py_str B (PStr s) = s"
| "py_str B (PInt i) = str_int B i"
| "py_str B (PFloat x) = str_float B x"

text \<open>\<^verbatim>\<open>s.replace(",", "")\<close>\<close>

definition remove_commas :: "string \<Rightarrow> string" where
  "remove_commas s = filter (\<lambda>c. c \<noteq> CHR '','') s"

text \<open>
  \<^verbatim>\<open>s.upper()\<close>, as far as the comparison with \<^verbatim>\<open>N/A\<close> goes: the letters of ASCII are
  raised; no character beyond ASCII has an upper case made of N, / and A only.
\<close>

definition upper_char :: "char \<Rightarrow> char" where
  "upper_char c =
     (case map_of (zip ''abcdefghijklmnopqrstuvwxyz'' ''ABCDEFGHIJKLMNOPQRSTUVWXYZ'') c of
        None \<Rightarrow> c
      | Some u \<Rightarrow> u)"

definition py_upper :: "string \<Rightarrow> string" where
  "py_upper s = map upper_char s"

text \<open>\<^verbatim>\<open>a / b\<close> on floats: a zero divisor raises.\<close>

definition py_div :: "builtins \<Rightarrow> pynum \<Rightarrow> pynum \<Rightarrow> py_error + pynum" where
  "py_div B a b = (if is_zero b then Inl ZeroDivisionError else Inr (float_div B a b))"

section \<open>The opportunity ranker (data_filterPM.filter_opportunities)\<close>

definition STATS_MARKER :: string where
  "STATS_MARKER = ''__DYNAMIC_SCRAPE_STATS__''"

definition is_stats :: "stock \<Rightarrow> bool" where
  "is_stats stock = (stock ''symbol'' = Some (PStr STATS_MARKER))"

definition has_error :: "stock \<Rightarrow> bool" where
  "has_error stock = (stock ''error'' \<noteq> None)"

text \<open>The thresholds are read from the configuration dictionary with defaults.\<close>

type_synonym config = "string \<rightharpoonup> real"

definition rsi_long_max :: "config \<Rightarrow> real" where
  "rsi_long_max cfg = (case cfg ''RSI_LONG_MAX'' of None \<Rightarrow> 70 | Some v \<Rightarrow> v)"

definition rsi_short_min :: "config \<Rightarrow> real" where
  "rsi_short_min cfg = (case cfg ''RSI_SHORT_MIN'' of None \<Rightarrow> 30 | Some v \<Rightarrow> v)"

definition min_pm_change :: "config \<Rightarrow> real" where
  "min_pm_change cfg = (case cfg ''MIN_PREMARKET_CHANGE_PERCENT'' of None \<Rightarrow> 2 | Some v \<Rightarrow> v)"

text \<open>
  One test of the \<^verbatim>\<open>try\<close> block: \<^verbatim>\<open>float(rsi) <op> bound and float(pct) <op> bound\<close>.
  The right conjunct is evaluated only when the left one holds, so a percent that
  does not convert raises only then.
\<close>

definition guarded_test ::
  "builtins \<Rightarrow> bool \<Rightarrow> pyval \<Rightarrow> (pynum \<Rightarrow> bool) \<Rightarrow> py_error + bool" where
  "guarded_test B left pct test =
     (if left then (case py_float_val B pct of Inl e \<Rightarrow> Inl e | Inr p \<Rightarrow> Inr (test p))
      else Inr False)"

text \<open>
  The body of the loop for one record: whether it is appended to the long candidates
  and whether it is appended to the short candidates. Any exception inside the
  \<^verbatim>\<open>try\<close> block abandons the record at that point.
\<close>

definition classify :: "builtins \<Rightarrow> config \<Rightarrow> stock \<Rightarrow> bool \<times> bool" where
  "classify B cfg stock =
     (if is_stats stock then (False, False)
      else if has_error stock then (False, False)
      else
        (let rsi = dict_get stock ''rsi'';
             pmchg_pct = dict_get stock ''premarket_change_percent''
         in if rsi \<noteq> PNone \<and> pmchg_pct \<noteq> PNone \<and> pmchg_pct \<noteq> PStr ''N/A'' then
              (case py_float_val B rsi of
                 Inl e \<Rightarrow> (False, False)
               | Inr r \<Rightarrow>
                   (case guarded_test B (num_lt r (Fin (rsi_short_min cfg))) pmchg_pct
                           (\<lambda>p. num_le (Fin (min_pm_change cfg)) p) of
                      Inl e \<Rightarrow> (False, False)
                    | Inr is_long \<Rightarrow>
                        (case guarded_test B (num_lt (Fin (rsi_long_max cfg)) r) pmchg_pct
                                (\<lambda>p. num_le p (Fin (- min_pm_change cfg))) of
                           Inl e \<Rightarrow> (is_long, False)
                         | Inr is_short \<Rightarrow> (is_long, is_short))))
            else (False, False)))"

text \<open>The loop over the records, appending to the two candidate lists.\<close>

fun scan ::
  "builtins \<Rightarrow> config \<Rightarrow> stock list \<Rightarrow> stock list \<times> stock list \<Rightarrow> stock list \<times> stock list" where
  "scan B cfg [] acc = acc"
| "scan B cfg (stock # rest) (long_candidates, short_candidates) =
     scan B cfg rest
       ((if fst (classify B cfg stock) then long_candidates @ [stock] else long_candidates),
        (if snd (classify B cfg stock) then short_candidates @ [stock] else short_candidates))"

text \<open>
  The sort key \<^verbatim>\<open>x["premarket_change_percent"] if ... != "N/A" else 0\<close>: the raw field,
  not converted; subscripting an absent field raises \<^verbatim>\<open>KeyError\<close>.
\<close>

definition sort_key_of :: "stock \<Rightarrow> py_error + pyval" where
  "sort_key_of x =
     (case x ''premarket_change_percent'' of
        None \<Rightarrow> Inl KeyError
      | Some v \<Rightarrow> Inr (if v \<noteq> PStr ''N/A'' then v else PInt 0))"

fun is_num :: "py_error + pyval \<Rightarrow> bool" where
  "is_num (Inr (PInt i)) = True"
| "is_num (Inr (PFloat x)) = True"
| "is_num _ = False"

fun is_str :: "py_error + pyval \<Rightarrow> bool" where
  "is_str (Inr (PStr s)) = True"
| "is_str _ = False"

text \<open>The value of a numeric key, and its place in the order of the numbers.\<close>

fun key_value :: "py_error + pyval \<Rightarrow> pynum" where
  "key_value (Inr (PInt i)) = Fin (real_of_int i)"
| "key_value (Inr (PFloat x)) = x"
| "key_value _ = NaN"

definition num_key :: "stock \<Rightarrow> nat \<times> real" where
  "num_key x = num_rank (key_value (sort_key_of x))"

fun str_key :: "stock \<Rightarrow> string" where
  "str_key x = (case sort_key_of x of Inr (PStr s) \<Rightarrow> s | _ \<Rightarrow> [])"

text \<open>
  A stable sort by a key; with \<^verbatim>\<open>reverse=True\<close> Python sorts the reversed list and
  reverses the result, which keeps records with equal keys in their input order.
\<close>

definition stable_sort :: "bool \<Rightarrow> ('a \<Rightarrow> 'k::linorder) \<Rightarrow> 'a list \<Rightarrow> 'a list" where
  "stable_sort reverse key xs = (if reverse then rev (sort_key key (rev xs)) else sort_key key xs)"

text \<open>
  \<^verbatim>\<open>sorted(xs, key=..., reverse=...)\<close> with the key above. The keys are computed first.
  Numbers compare with numbers by value and strings with strings (by code point,
  lexicographically); a list of two or more records whose keys are not all numbers or
  all strings makes a comparison between unlike values, and \<^verbatim>\<open>None\<close> compares with
  nothing: \<^verbatim>\<open>TypeError\<close>. The order that Python gives to keys that are NaN depends on the
  sorting algorithm; here they come last. No such key reaches the sort from the ranker
  (\<open>candidate_key_not_nan\<close> below).
\<close>

definition py_sorted :: "bool \<Rightarrow> stock list \<Rightarrow> py_error + stock list" where
  "py_sorted reverse xs =
     (if list_ex (\<lambda>x. sort_key_of x = Inl KeyError) xs then Inl KeyError
      else if length xs \<le> 1 then Inr xs
      else if list_all (\<lambda>x. is_num (sort_key_of x)) xs then Inr (stable_sort reverse num_key xs)
      else if list_all (\<lambda>x. is_str (sort_key_of x)) xs then Inr (stable_sort reverse str_key xs)
      else Inl TypeError)"

definition filter_opportunities ::
  "builtins \<Rightarrow> stock list \<Rightarrow> config \<Rightarrow> py_error + (stock list \<times> stock list)" where
  "filter_opportunities B filtered_data cfg =
     (let (long_candidates, short_candidates) = scan B cfg filtered_data ([], [])
      in case py_sorted True long_candidates of
           Inl e \<Rightarrow> Inl e
         | Inr long_sorted \<Rightarrow>
             (case py_sorted False short_candidates of
                Inl e \<Rightarrow> Inl e
              | Inr short_sorted \<Rightarrow> Inr (long_sorted, short_sorted)))"

section \<open>The premarket normalizer (data_filterPM.filter_premarket_data)\<close>

text \<open>
  The body of the loop for one record: \<open>Some\<close> of the record appended to the result,
  or \<open>None\<close> when nothing is appended. The assignment to
  \<^verbatim>\<open>stock["premarket_change_percent"]\<close> is the update of the map. Every exception of the
  \<^verbatim>\<open>try\<close> block ends in the handler, which appends nothing.
\<close>

definition premarket_step :: "builtins \<Rightarrow> stock \<Rightarrow> stock option" where
  "premarket_step B stock =
     (if is_stats stock then Some stock
      else if has_error stock then None
      else
        (let price_str = remove_commas (py_str B (dict_get_default stock ''price'' (PStr ''N/A'')));
             change_str =
               remove_commas (py_str B (dict_get_default stock ''premarket_change'' (PStr ''N/A'')))
         in if py_upper price_str = ''N/A'' \<or> py_upper change_str = ''N/A''
            then Some (stock(''premarket_change_percent'' \<mapsto> PStr ''N/A''))
            else
              (case float_str B price_str of
                 None \<Rightarrow> None
               | Some price \<Rightarrow>
                   (case float_str B change_str of
                      None \<Rightarrow> None
                    | Some change \<Rightarrow>
                        if \<not> is_zero price
                        then (case py_div B change price of
                                Inl e \<Rightarrow> None
                              | Inr ratio \<Rightarrow>
                                  Some (stock(''premarket_change_percent'' \<mapsto>
                                          PFloat (float_mul B ratio (Fin 100)))))
                        else Some (stock(''premarket_change_percent'' \<mapsto> PStr ''N/A''))))))"

fun premarket_loop :: "builtins \<Rightarrow> stock list \<Rightarrow> stock list \<Rightarrow> stock list" where
  "premarket_loop B [] filtered = filtered"
| "premarket_loop B (stock # rest) filtered =
     premarket_loop B rest
       (case premarket_step B stock of None \<Rightarrow> filtered | Some kept \<Rightarrow> filtered @ [kept])"

text \<open>
  The input is the content of the file, \<open>None\<close> when it cannot be read (the function
  then returns the empty list). The result is the list \<^verbatim>\<open>filtered\<close>, which is returned
  whether or not writing it out succeeds.
\<close>

definition filter_premarket_data :: "builtins \<Rightarrow> stock list option \<Rightarrow> stock list" where
  "filter_premarket_data B input =
     (case input of None \<Rightarrow> [] | Some data \<Rightarrow> premarket_loop B data [])"

section \<open>The indicator fetch (data_fetch.fetch_static_data)\<close>

text \<open>\<^verbatim>\<open>symbol.replace('-', '.')\<close>\<close>

definition hyphen_to_dot :: "string \<Rightarrow> string" where
  "hyphen_to_dot s = map (\<lambda>c. if c = CHR ''-'' then CHR ''.'' else c) s"

definition get_symbol_variants :: "string \<Rightarrow> string list" where
  "get_symbol_variants symbol =
     (if CHR ''-'' \<in> set symbol then [symbol, hyphen_to_dot symbol] else [symbol])"

datatype exchange = NASDAQ | NYSE

text \<open>
  What one lookup at the analytics service does: it raises the "Exchange or symbol not
  found" exception, raises another exception, or returns an analysis whose indicator
  table gives the RSI and the SMA20, each a float or absent.
\<close>

datatype lookup = NotFound | OtherFailure | Analysis "pynum option" "pynum option"

type_synonym service = "string \<Rightarrow> exchange \<Rightarrow> lookup"

text \<open>
  The inner loop over the exchanges. The variables \<^verbatim>\<open>rsi\<close> and \<^verbatim>\<open>sma\<close> are assigned
  from every analysis that is returned, before the test that both are present.
\<close>

fun try_exchanges ::
  "service \<Rightarrow> string \<Rightarrow> exchange list \<Rightarrow> pynum option \<times> pynum option
     \<Rightarrow> pynum option \<times> pynum option \<times> bool" where
  "try_exchanges ta variant [] (rsi, sma) = (rsi, sma, False)"
| "try_exchanges ta variant (ex # exs) (rsi, sma) =
     (case ta variant ex of
        Analysis r s \<Rightarrow>
          (if r \<noteq> None \<and> s \<noteq> None then (r, s, True)
           else try_exchanges ta variant exs (r, s))
      | NotFound \<Rightarrow> try_exchanges ta variant exs (rsi, sma)
      | OtherFailure \<Rightarrow> try_exchanges ta variant exs (rsi, sma))"

fun try_variants ::
  "service \<Rightarrow> string list \<Rightarrow> pynum option \<times> pynum option \<Rightarrow> pynum option \<times> pynum option" where
  "try_variants ta [] (rsi, sma) = (rsi, sma)"
| "try_variants ta (variant # variants) (rsi, sma) =
     (case try_exchanges ta variant [NASDAQ, NYSE] (rsi, sma) of
        (r, s, found) \<Rightarrow> if found then (r, s) else try_variants ta variants (r, s))"

definition opt_val :: "pynum option \<Rightarrow> pyval" where
  "opt_val v = (case v of None \<Rightarrow> PNone | Some x \<Rightarrow> PFloat x)"

definition fetch_symbol :: "service \<Rightarrow> string \<Rightarrow> stock" where
  "fetch_symbol ta symbol =
     (case try_variants ta (get_symbol_variants symbol) (None, None) of
        (rsi, sma) \<Rightarrow> [''rsi'' \<mapsto> opt_val rsi, ''sma'' \<mapsto> opt_val sma])"

fun static_loop :: "service \<Rightarrow> string list \<Rightarrow> (string \<rightharpoonup> stock) \<Rightarrow> (string \<rightharpoonup> stock)" where
  "static_loop ta [] static_results = static_results"
| "static_loop ta (symbol # rest) static_results =
     static_loop ta rest (static_results(symbol \<mapsto> fetch_symbol ta symbol))"

definition fetch_static_data :: "service \<Rightarrow> string list \<Rightarrow> (string \<rightharpoonup> stock)" where
  "fetch_static_data ta stock_list = static_loop ta stock_list Map.empty"

section \<open>The price scraper (data_fetch.fetch_dynamic_data)\<close>

text \<open>
  The page as the scraper reads it: \<^verbatim>\<open>page.query_selector(sel)\<close> gives the first element
  matching the selector, here its inner text, or \<^verbatim>\<open>None\<close>.
\<close>

type_synonym dom = "string \<Rightarrow> string option"

text \<open>
  What the run meets outside the program: whether the browser session starts and the
  chart page loads, the page as it stands after the i-th symbol was typed, the seconds
  the i-th symbol took, and the seconds of the whole run.
\<close>

record scrape_env =
  launch_ok :: bool
  dom_at :: "nat \<Rightarrow> dom"
  stock_time :: "nat \<Rightarrow> real"
  overall_time :: real

text \<open>\<^verbatim>\<open>el.inner_text()\<close>: on \<^verbatim>\<open>None\<close> the attribute does not exist.\<close>

definition inner_text :: "string option \<Rightarrow> py_error + string" where
  "inner_text el = (case el of None \<Rightarrow> Inl AttributeError | Some t \<Rightarrow> Inr t)"

text \<open>\<^verbatim>\<open>el.inner_text().strip() if el else "N/A"\<close>\<close>

definition text_or_na :: "builtins \<Rightarrow> string option \<Rightarrow> py_error + pyval" where
  "text_or_na B el =
     (if el \<noteq> None
      then (case inner_text el of Inl e \<Rightarrow> Inl e | Inr t \<Rightarrow> Inr (PStr (str_strip B t)))
      else Inr (PStr ''N/A''))"

text \<open>The three queries and the record built from them, field by field.\<close>

definition scrape_symbol :: "builtins \<Rightarrow> dom \<Rightarrow> py_error + stock" where
  "scrape_symbol B page =
     (let real_time_price = page ''span.price-qWcO4bp9'';
          pre_market_price = page ''span.price-d1N3lNBX'';
          pre_market_change_percent = page ''span.changePercent-d1N3lNBX''
      in case text_or_na B real_time_price of
           Inl e \<Rightarrow> Inl e
         | Inr price \<Rightarrow>
             (case text_or_na B pre_market_price of
                Inl e \<Rightarrow> Inl e
              | Inr premarket_price \<Rightarrow>
                  (case text_or_na B pre_market_change_percent of
                     Inl e \<Rightarrow> Inl e
                   | Inr premarket_change_percent \<Rightarrow>
                       Inr [''price'' \<mapsto> price,
                            ''premarket_price'' \<mapsto> premarket_price,
                            ''premarket_change'' \<mapsto> PStr ''N/A'',
                            ''premarket_change_percent'' \<mapsto> premarket_change_percent])))"

text \<open>The loop over the symbols; an exception leaves it.\<close>

fun scrape_loop ::
  "builtins \<Rightarrow> scrape_env \<Rightarrow> nat \<Rightarrow> string list \<Rightarrow> (string \<rightharpoonup> stock) \<times> real
     \<Rightarrow> py_error + (string \<rightharpoonup> stock) \<times> real" where
  "scrape_loop B env i [] acc = Inr acc"
| "scrape_loop B env i (symbol # rest) (dynamic_results, total_fetch_time) =
     (case scrape_symbol B (dom_at env i) of
        Inl e \<Rightarrow> Inl e
      | Inr entry \<Rightarrow>
          scrape_loop B env (Suc i) rest
            (dynamic_results(symbol \<mapsto> entry), total_fetch_time + stock_time env i))"

text \<open>\<^verbatim>\<open>a / b\<close> on the timings: a zero divisor raises.\<close>

definition py_truediv :: "real \<Rightarrow> real \<Rightarrow> py_error + real" where
  "py_truediv a b = (if b = 0 then Inl ZeroDivisionError else Inr (a / b))"

definition fetch_dynamic_data ::
  "builtins \<Rightarrow> scrape_env \<Rightarrow> string list \<Rightarrow> py_error + ((string \<rightharpoonup> stock) \<times> real \<times> real)" where
  "fetch_dynamic_data B env stock_list =
     (if \<not> launch_ok env then Inl BrowserError
      else
        (case scrape_loop B env 0 stock_list (Map.empty, 0) of
           Inl e \<Rightarrow> Inl e
         | Inr (dynamic_results, total_fetch_time) \<Rightarrow>
             (case (if stock_list \<noteq> []
                    then py_truediv total_fetch_time (real (length stock_list))
                    else Inr 0) of
                Inl e \<Rightarrow> Inl e
              | Inr avg_time_per_stock \<Rightarrow>
                  Inr (dynamic_results, overall_time env, avg_time_per_stock))))"

section \<open>Merging the two sources (data_fetch.fetch_all_stocks, startt.run_dynamic_analysis)\<close>

text \<open>
  The position of the price against the moving average. \<^verbatim>\<open>price.replace\<close> exists only
  on a string; every exception of the \<^verbatim>\<open>try\<close> block leaves the position at \<^verbatim>\<open>N/A\<close>.
\<close>

definition position_of :: "builtins \<Rightarrow> pyval \<Rightarrow> pyval \<Rightarrow> string" where
  "position_of B price sma =
     (if price \<noteq> PStr ''N/A'' \<and> truthy sma then
        (case price of
           PStr p \<Rightarrow>
             (case float_str B (remove_commas p) of
                None \<Rightarrow> ''N/A''
              | Some price_val \<Rightarrow>
                  (case float_str B (remove_commas (py_str B sma)) of
                     None \<Rightarrow> ''N/A''
                   | Some sma_val \<Rightarrow>
                       if num_lt sma_val price_val then ''Above SMA'' else ''Below SMA''))
         | PNone \<Rightarrow> ''N/A''
         | PInt i \<Rightarrow> ''N/A''
         | PFloat x \<Rightarrow> ''N/A'')
      else ''N/A'')"

text \<open>The body of the merge loop, the same in both functions.\<close>

definition merge_record ::
  "builtins \<Rightarrow> (string \<rightharpoonup> stock) \<Rightarrow> (string \<rightharpoonup> stock) \<Rightarrow> string \<Rightarrow> stock" where
  "merge_record B static_data dynamic_data symbol =
     (let rsi_sma = (case static_data symbol of None \<Rightarrow> Map.empty | Some d \<Rightarrow> d);
          dyn = (case dynamic_data symbol of None \<Rightarrow> Map.empty | Some d \<Rightarrow> d);
          price = dict_get_default dyn ''price'' (PStr ''N/A'');
          sma = dict_get rsi_sma ''sma''
      in [''symbol'' \<mapsto> PStr symbol,
          ''rsi'' \<mapsto> dict_get rsi_sma ''rsi'',
          ''sma'' \<mapsto> sma,
          ''position'' \<mapsto> PStr (position_of B price sma),
          ''price'' \<mapsto> price,
          ''premarket_price'' \<mapsto> dict_get_default dyn ''premarket_price'' (PStr ''N/A''),
          ''premarket_change'' \<mapsto> dict_get_default dyn ''premarket_change'' (PStr ''N/A''),
          ''premarket_change_percent'' \<mapsto>
             dict_get_default dyn ''premarket_change_percent'' (PStr ''N/A'')])"

fun merge_loop ::
  "builtins \<Rightarrow> (string \<rightharpoonup> stock) \<Rightarrow> (string \<rightharpoonup> stock) \<Rightarrow> string list \<Rightarrow> stock list
     \<Rightarrow> stock list" where
  "merge_loop B static_data dynamic_data [] final_results = final_results"
| "merge_loop B static_data dynamic_data (symbol # rest) final_results =
     merge_loop B static_data dynamic_data rest
       (final_results @ [merge_record B static_data dynamic_data symbol])"

text \<open>
  \<^verbatim>\<open>fetch_all_stocks\<close>: both fetches, the merge, then the statistics record. The
  parameter \<open>fmt\<close> is the formatting \<^verbatim>\<open>f"{x:.2f}"\<close> of a float.
\<close>

definition fetch_all_stocks ::
  "builtins \<Rightarrow> service \<Rightarrow> scrape_env \<Rightarrow> (real \<Rightarrow> string) \<Rightarrow> string list
     \<Rightarrow> py_error + stock list" where
  "fetch_all_stocks B ta env fmt stock_list =
     (let static_data = fetch_static_data ta stock_list
      in case fetch_dynamic_data B env stock_list of
           Inl e \<Rightarrow> Inl e
         | Inr (dynamic_data, dyn_total, dyn_avg) \<Rightarrow>
             Inr (merge_loop B static_data dynamic_data stock_list [] @
                  [[''symbol'' \<mapsto> PStr STATS_MARKER,
                    ''dynamic_scrape_total_seconds'' \<mapsto> PStr (fmt dyn_total),
                    ''dynamic_scrape_avg_seconds'' \<mapsto> PStr (fmt dyn_avg)]]))"

text \<open>
  \<^verbatim>\<open>run_dynamic_analysis\<close>. The configuration gives the stock lists in their order and
  the thresholds; \<open>static_file\<close> is the content of the stored indicator results,
  \<open>None\<close> when it cannot be read. With no stock list the function returns at once
  (\<open>Inr None\<close>). Otherwise the result is the list handed to both writers
  (\<^verbatim>\<open>dump_data_to_csv\<close>, \<^verbatim>\<open>dump_data_to_json\<close>), and what the ranker then makes of that
  list: the opportunities sent on, or the exception that ends the run after the files
  are written.
\<close>

record app_config =
  stock_lists :: "(string \<times> string list) list"
  thresholds :: config

definition run_dynamic_analysis ::
  "builtins \<Rightarrow> app_config \<Rightarrow> scrape_env \<Rightarrow> (string \<rightharpoonup> stock) option
     \<Rightarrow> py_error + (stock list \<times> (py_error + stock list \<times> stock list)) option" where
  "run_dynamic_analysis B conf env static_file =
     (case stock_lists conf of
        [] \<Rightarrow> Inr None
      | (selected_list_name, stock_list) # others \<Rightarrow>
          (case fetch_dynamic_data B env stock_list of
             Inl e \<Rightarrow> Inl e
           | Inr (dynamic_data, dyn_total, dyn_avg) \<Rightarrow>
               (let static_results =
                      (case static_file of None \<Rightarrow> Map.empty | Some m \<Rightarrow> m);
                    final_results = merge_loop B static_results dynamic_data stock_list []
                in Inr (Some (final_results,
                              filter_opportunities B final_results (thresholds conf))))))"

section \<open>Notions used in the statements\<close>

text \<open>
  The text of a field that a \<^verbatim>\<open>get\<close> with the default \<^verbatim>\<open>N/A\<close> reads and \<^verbatim>\<open>str\<close> converts:
  an absent field gives the default, \<^verbatim>\<open>None\<close> gives the text None.
\<close>

fun field_text :: "builtins \<Rightarrow> pyval option \<Rightarrow> string" where
  "field_text B None = ''N/A''"
| "field_text B (Some PNone) = ''None''"
| "field_text B (Some (PStr s)) = s"
| "field_text B (Some (PInt i)) = str_int B i"
| "field_text B (Some (PFloat x)) = str_float B x"


text \<open>
  The lookups of one symbol in the order in which the two loops make them, and the test
  that a lookup returned both indicator values.
\<close>

definition attempts :: "string list \<Rightarrow> (string \<times> exchange) list" where
  "attempts variants = concat (map (\<lambda>v. [(v, NASDAQ), (v, NYSE)]) variants)"

fun has_both :: "lookup \<Rightarrow> bool" where
  "has_both (Analysis (Some r) (Some s)) = True"
| "has_both _ = False"

section \<open>Built-in functions for the examples\<close>

text \<open>
  The examples are evaluated with the following functions. They agree with Python on
  the values that occur in the examples: decimal numerals with an optional sign and
  fraction between blanks, ints, and products and quotients that are exact.
\<close>

definition blank_strip :: "string \<Rightarrow> string" where
  "blank_strip s =
     rev (dropWhile (\<lambda>c. c = CHR '' '') (rev (dropWhile (\<lambda>c. c = CHR '' '') s)))"

definition is_digit :: "char \<Rightarrow> bool" where
  "is_digit c = (48 \<le> (of_char c :: nat) \<and> (of_char c :: nat) \<le> 57)"

definition digits_val :: "string \<Rightarrow> nat" where
  "digits_val ds = foldl (\<lambda>a c. 10 * a + (of_char c - 48)) 0 ds"

fun split_sign :: "string \<Rightarrow> real \<times> string" where
  "split_sign [] = (1, [])"
| "split_sign (c # cs) =
     (if c = CHR ''-'' then (- 1, cs) else if c = CHR ''+'' then (1, cs) else (1, c # cs))"

definition dec_float :: "string \<Rightarrow> pynum option" where
  "dec_float s =
     (let (sgn, u) = split_sign (blank_strip s);
          ip = takeWhile is_digit u;
          r1 = dropWhile is_digit u;
          fp = (case r1 of [] \<Rightarrow> [] | c # r \<Rightarrow> r);
          valid = (case r1 of
                     [] \<Rightarrow> ip \<noteq> []
                   | c # r \<Rightarrow> c = CHR ''.'' \<and> list_all is_digit r \<and> (ip \<noteq> [] \<or> r \<noteq> []))
      in if valid then Some (Fin (sgn * real (digits_val (ip @ fp)) / 10 ^ length fp))
         else None)"

definition digit_char :: "nat \<Rightarrow> char" where
  "digit_char n = ''0123456789'' ! n"

function nat_str :: "nat \<Rightarrow> string" where
  "nat_str n = (if n < 10 then [digit_char n] else nat_str (n div 10) @ [digit_char (n mod 10)])"
  by pat_completeness auto
termination
  by (relation "measure id") auto

definition int_str :: "int \<Rightarrow> string" where
  "int_str i = (if i < 0 then CHR ''-'' # nat_str (nat (- i)) else nat_str (nat i))"

text \<open>The text of the two floats of the examples that are converted to text.\<close>

definition float_text :: "pynum \<Rightarrow> string" where
  "float_text x = (if x = Fin 0 then ''0.0'' else if x = Fin 140.5 then ''140.5'' else ''nan'')"

fun exact_div :: "pynum \<Rightarrow> pynum \<Rightarrow> pynum" where
  "exact_div (Fin a) (Fin b) = Fin (a / b)"
| "exact_div a b = NaN"

fun exact_mul :: "pynum \<Rightarrow> pynum \<Rightarrow> pynum" where
  "exact_mul (Fin a) (Fin b) = Fin (a * b)"
| "exact_mul a b = NaN"

definition sample_py :: builtins where
  "sample_py = \<lparr>float_str = dec_float, float_int = (\<lambda>i. Some (Fin (real_of_int i))),
                 str_int = int_str, str_float = float_text,
                 float_div = exact_div, float_mul = exact_mul, str_strip = blank_strip\<rparr>"

section \<open>Example inputs\<close>

text \<open>Thresholds that cross: the long bound on the oscillator lies above the short bound.\<close>

definition crossed_config :: config where
  "crossed_config = [''RSI_LONG_MAX'' \<mapsto> 10, ''RSI_SHORT_MIN'' \<mapsto> 90,
                     ''MIN_PREMARKET_CHANGE_PERCENT'' \<mapsto> 0]"

definition stock_mid :: stock where
  "stock_mid = [''symbol'' \<mapsto> PStr ''MID'', ''rsi'' \<mapsto> PFloat (Fin 50),
                ''premarket_change_percent'' \<mapsto> PFloat (Fin 0)]"

definition stock_low :: stock where
  "stock_low = [''symbol'' \<mapsto> PStr ''LOW'', ''rsi'' \<mapsto> PFloat (Fin 25),
                ''premarket_change_percent'' \<mapsto> PFloat (Fin 5)]"

definition stock_high :: stock where
  "stock_high = [''symbol'' \<mapsto> PStr ''HIGH'', ''rsi'' \<mapsto> PFloat (Fin 80),
                 ''premarket_change_percent'' \<mapsto> PFloat (Fin (- 3))]"




definition stock_low_err :: stock where
  "stock_low_err = [''symbol'' \<mapsto> PStr ''LOW'', ''rsi'' \<mapsto> PFloat (Fin 25),
                    ''premarket_change_percent'' \<mapsto> PFloat (Fin 5),
                    ''error'' \<mapsto> PStr ''timeout'']"





text \<open>Two records whose percent field is text, as the scraper and the merge leave it.\<close>

definition stock_five :: stock where
  "stock_five = [''symbol'' \<mapsto> PStr ''FIVE'', ''rsi'' \<mapsto> PFloat (Fin 25),
                 ''premarket_change_percent'' \<mapsto> PStr ''5.0'']"

definition stock_ten :: stock where
  "stock_ten = [''symbol'' \<mapsto> PStr ''TEN'', ''rsi'' \<mapsto> PFloat (Fin 25),
                ''premarket_change_percent'' \<mapsto> PStr ''10.0'']"






definition stats_record :: stock where
  "stats_record = [''symbol'' \<mapsto> PStr ''__DYNAMIC_SCRAPE_STATS__'',
                   ''dynamic_scrape_total_seconds'' \<mapsto> PStr ''12.34'',
                   ''dynamic_scrape_avg_seconds'' \<mapsto> PStr ''1.23'']"

text \<open>
  Indicator and scrape results: a moving average of zero; three symbols whose moving
  average is a float, a text with a thousands separator, and absent.
\<close>

definition static_zero :: "string \<rightharpoonup> stock" where
  "static_zero = [''ZERO'' \<mapsto> [''rsi'' \<mapsto> PFloat (Fin 50), ''sma'' \<mapsto> PFloat (Fin 0)]]"

definition dynamic_zero :: "string \<rightharpoonup> stock" where
  "dynamic_zero = [''ZERO'' \<mapsto> [''price'' \<mapsto> PStr ''5.00'', ''premarket_price'' \<mapsto> PStr ''N/A'',
       ''premarket_change'' \<mapsto> PStr ''N/A'', ''premarket_change_percent'' \<mapsto> PStr ''N/A'']]"

definition static_three :: "string \<rightharpoonup> stock" where
  "static_three =
     [''AAPL'' \<mapsto> [''rsi'' \<mapsto> PFloat (Fin 25), ''sma'' \<mapsto> PFloat (Fin 140.5)],
      ''LOWP'' \<mapsto> [''rsi'' \<mapsto> PFloat (Fin 60), ''sma'' \<mapsto> PStr ''1,000.5'']]"

definition dynamic_three :: "string \<rightharpoonup> stock" where
  "dynamic_three =
     [''AAPL'' \<mapsto> [''price'' \<mapsto> PStr ''1,150.00''],
      ''LOWP'' \<mapsto> [''price'' \<mapsto> PStr ''999''],
      ''NOSMA'' \<mapsto> [''price'' \<mapsto> PStr ''10.00'']]"

text \<open>
  Runs of the scraper: a page on which no element is found, a page on which every
  selector finds an element, and a page with the price element alone.
\<close>

definition quiet_env :: scrape_env where
  "quiet_env = \<lparr>launch_ok = True, dom_at = (\<lambda>i sel. None), stock_time = (\<lambda>i. 1),
                 overall_time = 2\<rparr>"

definition one_list_conf :: app_config where
  "one_list_conf = \<lparr>stock_lists = [(''default'', [''AAPL''])], thresholds = Map.empty\<rparr>"





text \<open>
  A service that returns an analysis with the RSI alone on the first exchange and knows
  no symbol on the second.
\<close>

definition partial_service :: service where
  "partial_service variant ex =
     (if ex = NASDAQ then Analysis (Some (Fin 55)) None else NotFound)"

section \<open>Evaluation of the examples\<close>

lemmas config_defs = rsi_long_max_def rsi_short_min_def min_pm_change_def

lemmas stock_tests = is_stats_def has_error_def STATS_MARKER_def dict_get_def dict_get_default_def

lemmas dec_defs = dec_float_def blank_strip_def is_digit_def digits_val_def

lemma sample_fields:
  "float_str sample_py = dec_float"
  "float_int sample_py i = Some (Fin (real_of_int i))"
  "str_int sample_py = int_str"
  "str_float sample_py = float_text"
  "float_div sample_py = exact_div"
  "float_mul sample_py = exact_mul"
  "str_strip sample_py = blank_strip"
  by (simp_all add: sample_py_def)

section \<open>Properties of the ranker\<close>

lemma scan_filter:
  "scan B cfg xs (l, s) =
     (l @ filter (\<lambda>x. fst (classify B cfg x)) xs, s @ filter (\<lambda>x. snd (classify B cfg x)) xs)"
  by (induction xs arbitrary: l s) auto

lemma set_stable_sort: "set (stable_sort reverse key xs) = set xs"
  by (simp add: stable_sort_def)

lemma py_sorted_set: "py_sorted reverse xs = Inr ys \<Longrightarrow> set ys = set xs"
  by (auto simp: py_sorted_def set_stable_sort split: if_splits)

lemma filter_opportunities_sets:
  assumes "filter_opportunities B xs cfg = Inr (long, short)"
  shows "set long = {x \<in> set xs. fst (classify B cfg x)}"
    and "set short = {x \<in> set xs. snd (classify B cfg x)}"
  using assms
  by (auto simp: filter_opportunities_def scan_filter split: sum.splits dest!: py_sorted_set)

lemma py_sorted_single: "sort_key_of x \<noteq> Inl KeyError \<Longrightarrow> py_sorted reverse [x] = Inr [x]"
  by (simp add: py_sorted_def)

lemma py_sorted_nil: "py_sorted reverse [] = Inr []"
  by (simp add: py_sorted_def)

lemma classify_mid: "classify B crossed_config stock_mid = (True, True)"
  by (simp add: classify_def guarded_test_def crossed_config_def stock_mid_def config_defs
      stock_tests num_lt_def num_le_def)

lemma classify_low: "classify B Map.empty stock_low = (True, False)"
  by (simp add: classify_def guarded_test_def stock_low_def config_defs stock_tests
      num_lt_def num_le_def)

lemma classify_high: "classify B Map.empty stock_high = (False, True)"
  by (simp add: classify_def guarded_test_def stock_high_def config_defs stock_tests
      num_lt_def num_le_def)

lemma sort_key_mid: "sort_key_of stock_mid = Inr (PFloat (Fin 0))"
  by (simp add: sort_key_of_def stock_mid_def)

lemma sort_key_low: "sort_key_of stock_low = Inr (PFloat (Fin 5))"
  by (simp add: sort_key_of_def stock_low_def)

lemma sort_key_high: "sort_key_of stock_high = Inr (PFloat (Fin (- 3)))"
  by (simp add: sort_key_of_def stock_high_def)

lemma default_run:
  "filter_opportunities B [stock_low, stock_high] Map.empty = Inr ([stock_low], [stock_high])"
  by (simp add: filter_opportunities_def classify_low classify_high py_sorted_single
      sort_key_low sort_key_high)

subsection \<open>Disjointness of the two candidate lists\<close>

lemma tests_exclusive:
  assumes "0 < m \<or> a \<le> b"
  shows "\<not> (num_lt r (Fin a) \<and> num_le (Fin m) p \<and> num_lt (Fin b) r \<and> num_le p (Fin (- m)))"
  using assms by (cases r; cases p) (auto simp: num_lt_def num_le_def)

lemma classify_exclusive:
  assumes "0 < min_pm_change cfg \<or> rsi_short_min cfg \<le> rsi_long_max cfg"
  shows "\<not> (fst (classify B cfg x) \<and> snd (classify B cfg x))"
  using tests_exclusive[OF assms]
  by (auto simp: classify_def guarded_test_def Let_def split: if_splits sum.splits)

text \<open>
  C7, as stated: for every input and every thresholds the long and the short candidates
  are disjoint. It fails when the thresholds cross: with RSI_LONG_MAX = 10,
  RSI_SHORT_MIN = 90 and a minimum change of 0, a record with oscillator 50 and
  change 0 passes both tests, which are evaluated independently, and is returned in
  both lists.
\<close>

theorem long_short_overlap_counterexample:
  "filter_opportunities sample_py [stock_mid] crossed_config = Inr ([stock_mid], [stock_mid])"
  by (simp add: filter_opportunities_def classify_mid py_sorted_single sort_key_mid)

text \<open>
  C7, amended: whenever the minimum premarket change is positive or the short bound
  RSI_SHORT_MIN is at most the long bound RSI_LONG_MAX (as with the default thresholds
  70, 30 and 2.0), no record is in both the long and the short list that the ranker
  returns.
\<close>

theorem long_short_disjoint:
  assumes "filter_opportunities B filtered_data cfg = Inr (long, short)"
    and "0 < min_pm_change cfg \<or> rsi_short_min cfg \<le> rsi_long_max cfg"
  shows "set long \<inter> set short = {}"
proof -
  have "\<not> (fst (classify B cfg x) \<and> snd (classify B cfg x))" for x
    using assms(2) by (rule classify_exclusive)
  then show ?thesis
    unfolding filter_opportunities_sets[OF assms(1)] by blast
qed

theorem long_short_disjoint_witness:
  "filter_opportunities sample_py [stock_low, stock_high] Map.empty = Inr ([stock_low], [stock_high])
   \<and> (0 < min_pm_change Map.empty \<or> rsi_short_min Map.empty \<le> rsi_long_max Map.empty)
   \<and> set [stock_low] \<inter> set [stock_high] = {}"
proof -
  have run: "filter_opportunities sample_py [stock_low, stock_high] Map.empty =
      Inr ([stock_low], [stock_high])"
    by (rule default_run)
  have sane: "0 < min_pm_change Map.empty \<or> rsi_short_min Map.empty \<le> rsi_long_max Map.empty"
    by (simp add: config_defs)
  from long_short_disjoint[OF run sane] run sane show ?thesis by blast
qed

subsection \<open>The classification rule\<close>








lemma dec_float_text: "dec_float ''-3.5'' = Some (Fin (- 3.5))"
  by (simp add: dec_defs)








subsection \<open>The order of the candidate lists\<close>

lemma dec_float_five: "dec_float ''5.0'' = Some (Fin 5)"
  by (simp add: dec_defs)

lemma dec_float_ten: "dec_float ''10.0'' = Some (Fin 10)"
  by (simp add: dec_defs)

lemma classify_five: "classify sample_py Map.empty stock_five = (True, False)"
  by (simp add: classify_def guarded_test_def stock_five_def config_defs stock_tests
      sample_fields dec_float_five num_lt_def num_le_def)

lemma classify_ten: "classify sample_py Map.empty stock_ten = (True, False)"
  by (simp add: classify_def guarded_test_def stock_ten_def config_defs stock_tests
      sample_fields dec_float_ten num_lt_def num_le_def)

lemma sort_key_five: "sort_key_of stock_five = Inr (PStr ''5.0'')"
  by (simp add: sort_key_of_def stock_five_def)

lemma sort_key_ten: "sort_key_of stock_ten = Inr (PStr ''10.0'')"
  by (simp add: sort_key_of_def stock_ten_def)

lemma percent_five:
  "py_float_val sample_py (dict_get stock_five ''premarket_change_percent'') = Inr (Fin 5)"
  by (simp add: stock_five_def dict_get_def sample_fields dec_float_five)

lemma percent_ten:
  "py_float_val sample_py (dict_get stock_ten ''premarket_change_percent'') = Inr (Fin 10)"
  by (simp add: stock_ten_def dict_get_def sample_fields dec_float_ten)

text \<open>
  C6: the long list is sorted by percent, descending. The test of a candidate converts
  the percent with \<^verbatim>\<open>float\<close>, but the sort key is the raw field. Two long candidates
  whose percent is the text 10.0 and 5.0 are compared as text, where 5.0 is the greater,
  and come back with the percent 5 before the percent 10: ascending.
\<close>

theorem text_percent_sorted_as_text:
  "filter_opportunities sample_py [stock_ten, stock_five] Map.empty =
     Inr ([stock_five, stock_ten], [])
   \<and> map (\<lambda>x. py_float_val sample_py (dict_get x ''premarket_change_percent''))
         [stock_five, stock_ten] = [Inr (Fin 5), Inr (Fin 10)]"
proof -
  have "py_sorted True [stock_ten, stock_five] = Inr [stock_five, stock_ten]"
    by (simp add: py_sorted_def stable_sort_def sort_key_five sort_key_ten)
  then have "filter_opportunities sample_py [stock_ten, stock_five] Map.empty =
      Inr ([stock_five, stock_ten], [])"
    by (simp add: filter_opportunities_def classify_five classify_ten py_sorted_nil)
  then show ?thesis
    by (simp add: percent_five percent_ten)
qed

text \<open>A number and a text among the long candidates: the sort raises.\<close>

lemma mixed_percent_raises:
  "filter_opportunities sample_py [stock_low, stock_ten] Map.empty = Inl TypeError"
proof -
  have "py_sorted True [stock_low, stock_ten] = Inl TypeError"
    by (simp add: py_sorted_def sort_key_low sort_key_ten)
  then show ?thesis
    by (simp add: filter_opportunities_def classify_low classify_ten)
qed

subsection \<open>The order when every percent is a number\<close>

text \<open>
  After the premarket normalizer every percent is a float or \<^verbatim>\<open>N/A\<close>. On input whose
  percents are no other text the ranker returns, the long list is in descending and the
  short list in ascending order of the percent, and no key is NaN; a percent of \<^verbatim>\<open>N/A\<close>
  has the sort key 0.
\<close>

lemma na_sort_key:
  "x ''premarket_change_percent'' = Some (PStr ''N/A'') \<Longrightarrow> sort_key_of x = Inr (PInt 0)"
  by (simp add: sort_key_of_def)

lemma candidate_percent:
  assumes "fst (classify B cfg x) \<or> snd (classify B cfg x)"
  shows "\<exists>v. x ''premarket_change_percent'' = Some v \<and> v \<noteq> PNone \<and> v \<noteq> PStr ''N/A'' \<and>
     v \<noteq> PFloat NaN"
proof -
  from assms have "dict_get x ''premarket_change_percent'' \<noteq> PNone \<and>
      dict_get x ''premarket_change_percent'' \<noteq> PStr ''N/A'' \<and>
      dict_get x ''premarket_change_percent'' \<noteq> PFloat NaN"
    by (auto simp: classify_def Let_def guarded_test_def num_le_def
        split: if_splits sum.splits)
  then show ?thesis
    by (cases "x ''premarket_change_percent''") (auto simp: dict_get_def)
qed

lemma candidate_key_not_nan:
  assumes "fst (classify B cfg x) \<or> snd (classify B cfg x)"
  shows "sort_key_of x \<noteq> Inr (PFloat NaN) \<and> sort_key_of x \<noteq> Inl KeyError"
  using candidate_percent[OF assms] by (auto simp: sort_key_of_def)

lemma numeric_candidate_key:
  assumes "fst (classify B cfg x) \<or> snd (classify B cfg x)"
    and "\<forall>s. x ''premarket_change_percent'' \<noteq> Some (PStr s)"
  shows "is_num (sort_key_of x) \<and> key_value (sort_key_of x) \<noteq> NaN"
proof -
  from candidate_percent[OF assms(1)] obtain v where
    v: "x ''premarket_change_percent'' = Some v" "v \<noteq> PNone" "v \<noteq> PFloat NaN"
    by blast
  with assms(2) show ?thesis
    by (cases v) (auto simp: sort_key_of_def)
qed

lemma py_sorted_numeric:
  assumes "\<forall>x\<in>set xs. is_num (sort_key_of x)"
  shows "py_sorted reverse xs = Inr (stable_sort reverse num_key xs)"
proof -
  have no_err: "\<not> list_ex (\<lambda>x. sort_key_of x = Inl KeyError) xs"
    using assms by (auto simp: list_ex_iff)
  have nums: "list_all (\<lambda>x. is_num (sort_key_of x)) xs"
    using assms by (auto simp: list_all_iff)
  have short: "length xs \<le> 1 \<Longrightarrow> stable_sort reverse num_key xs = xs"
    by (cases xs) (auto simp: stable_sort_def)
  show ?thesis
    using no_err nums short by (simp add: py_sorted_def)
qed

lemma sorted_stable_sort:
  "sorted (map key (stable_sort False key xs))"
  "sorted (rev (map key (stable_sort True key xs)))"
  by (simp_all add: stable_sort_def rev_map)

lemma numeric_percent_sorted:
  assumes "\<forall>x\<in>set filtered_data. \<forall>s. x ''premarket_change_percent'' \<noteq> Some (PStr s)"
  shows "\<exists>long short. filter_opportunities B filtered_data cfg = Inr (long, short) \<and>
     sorted (rev (map num_key long)) \<and> sorted (map num_key short) \<and>
     (\<forall>x\<in>set long \<union> set short. key_value (sort_key_of x) \<noteq> NaN)"
proof -
  let ?l = "filter (\<lambda>x. fst (classify B cfg x)) filtered_data"
  let ?s = "filter (\<lambda>x. snd (classify B cfg x)) filtered_data"
  have key: "is_num (sort_key_of x) \<and> key_value (sort_key_of x) \<noteq> NaN"
    if "x \<in> set ?l \<union> set ?s" for x
    using that assms numeric_candidate_key[of B cfg x] by auto
  have l: "py_sorted True ?l = Inr (stable_sort True num_key ?l)"
    by (rule py_sorted_numeric) (use key in blast)
  have s: "py_sorted False ?s = Inr (stable_sort False num_key ?s)"
    by (rule py_sorted_numeric) (use key in blast)
  have run: "filter_opportunities B filtered_data cfg =
      Inr (stable_sort True num_key ?l, stable_sort False num_key ?s)"
    by (simp add: filter_opportunities_def scan_filter l s)
  have "\<forall>x\<in>set (stable_sort True num_key ?l) \<union> set (stable_sort False num_key ?s).
      key_value (sort_key_of x) \<noteq> NaN"
    unfolding set_stable_sort using key by blast
  with run sorted_stable_sort[of num_key] show ?thesis by blast
qed

section \<open>Properties of the premarket normalizer\<close>






lemma premarket_loop_append:
  "premarket_loop B xs acc = acc @ List.map_filter (premarket_step B) xs"
  by (induction xs arbitrary: acc) (auto split: option.splits)

lemma map_filter_split:
  "List.map_filter f (xs @ x # ys) =
     List.map_filter f xs @ (case f x of None \<Rightarrow> [] | Some y \<Rightarrow> [y]) @ List.map_filter f ys"
  by (simp add: map_filter_def split: option.splits)

lemma filter_premarket_data_split:
  "filter_premarket_data B (Some (before @ stock # after)) =
     filter_premarket_data B (Some before) @
     (case premarket_step B stock of None \<Rightarrow> [] | Some kept \<Rightarrow> [kept]) @
     filter_premarket_data B (Some after)"
  by (simp add: filter_premarket_data_def premarket_loop_append map_filter_split)


lemma filter_premarket_data_nil: "filter_premarket_data B (Some []) = []"
  by (simp add: filter_premarket_data_def)





text \<open>
  C5, as stated: a record that carries an error field is in the output unchanged. The
  loop skips such a record without appending it: it is left out.
\<close>

theorem errored_record_dropped_counterexample:
  "has_error stock_low_err \<and> filter_premarket_data sample_py (Some [stock_low_err]) = []"
  by (simp add: filter_premarket_data_def premarket_step_def stock_low_err_def stock_tests)

text \<open>
  C5, amended: the statistics record is in the output unchanged, at its place; a record
  that carries an error field and is not the statistics record is left out of the output.
\<close>

theorem premarket_passthrough:
  "(is_stats stock \<longrightarrow>
      filter_premarket_data B (Some (before @ stock # after)) =
        filter_premarket_data B (Some before) @ [stock] @ filter_premarket_data B (Some after)) \<and>
   (\<not> is_stats stock \<and> has_error stock \<longrightarrow>
      filter_premarket_data B (Some (before @ stock # after)) =
        filter_premarket_data B (Some before) @ filter_premarket_data B (Some after))"
  unfolding filter_premarket_data_split
  by (simp add: premarket_step_def)

lemma stats_record_is_stats: "is_stats stats_record"
  by (simp add: stats_record_def stock_tests)

lemma low_err_flags: "\<not> is_stats stock_low_err" "has_error stock_low_err"
  by (simp_all add: stock_low_err_def stock_tests)

theorem premarket_passthrough_witness:
  "is_stats stats_record \<and> \<not> is_stats stock_low_err \<and> has_error stock_low_err \<and>
   filter_premarket_data sample_py (Some ([] @ stats_record # [])) = [stats_record] \<and>
   filter_premarket_data sample_py (Some ([] @ stock_low_err # [])) = []"
  using premarket_passthrough[of stats_record sample_py "[]" "[]"]
    premarket_passthrough[of stock_low_err sample_py "[]" "[]"]
    stats_record_is_stats low_err_flags
  by (simp add: filter_premarket_data_nil)

section \<open>Properties of the merge\<close>

lemma merge_loop_map:
  "merge_loop B static_data dynamic_data stock_list acc =
     acc @ map (merge_record B static_data dynamic_data) stock_list"
  by (induction stock_list arbitrary: acc) auto

lemma merge_record_fields:
  "merge_record B s d symbol ''price'' =
     Some (dict_get_default (case d symbol of None \<Rightarrow> Map.empty | Some x \<Rightarrow> x) ''price''
             (PStr ''N/A''))"
  "merge_record B s d symbol ''sma'' =
     Some (dict_get (case s symbol of None \<Rightarrow> Map.empty | Some x \<Rightarrow> x) ''sma'')"
  "merge_record B s d symbol ''position'' =
     Some (PStr (position_of B
        (dict_get_default (case d symbol of None \<Rightarrow> Map.empty | Some x \<Rightarrow> x) ''price''
           (PStr ''N/A''))
        (dict_get (case s symbol of None \<Rightarrow> Map.empty | Some x \<Rightarrow> x) ''sma'')))"
  by (simp_all add: merge_record_def Let_def)

lemma truthy_iff:
  "truthy v \<longleftrightarrow> v \<notin> {PNone, PStr [], PInt 0, PFloat (Fin 0), PFloat NegZero}"
  by (cases v) (auto simp: is_zero_def)

lemma py_str_field_text: "py_str B v = field_text B (Some v)"
  by (cases v) simp_all

lemma position_of_numeric:
  assumes "p \<noteq> ''N/A''" and "truthy sma"
    and "float_str B (filter (\<lambda>c. c \<noteq> CHR '','') p) = Some pv"
    and "float_str B (filter (\<lambda>c. c \<noteq> CHR '','') (field_text B (Some sma))) = Some sv"
  shows "position_of B (PStr p) sma = (if num_lt sv pv then ''Above SMA'' else ''Below SMA'')"
  using assms by (simp add: position_of_def remove_commas_def py_str_field_text)

lemma position_of_unknown:
  assumes "(\<forall>p. price = PStr p \<longrightarrow>
              p = ''N/A'' \<or> float_str B (filter (\<lambda>c. c \<noteq> CHR '','') p) = None) \<or>
     \<not> truthy sma \<or>
     float_str B (filter (\<lambda>c. c \<noteq> CHR '','') (field_text B (Some sma))) = None"
  shows "position_of B price sma = ''N/A''"
  using assms
  by (cases price)
    (auto simp: position_of_def remove_commas_def py_str_field_text split: option.splits)

text \<open>
  C3, amended: every merged record has a price, a moving average and a position. When
  the price is a text other than \<^verbatim>\<open>N/A\<close> that \<^verbatim>\<open>float\<close> converts (commas removed), the
  moving average is truthy (not \<^verbatim>\<open>None\<close>, the empty text or a zero) and its text converts
  (commas removed), the position is Above when price > average and Below otherwise;
  when the price is \<^verbatim>\<open>N/A\<close>, not a text or does not convert, or the moving average is not
  truthy or does not convert, the position is \<^verbatim>\<open>N/A\<close> (Unknown).
\<close>

theorem position_rule:
  assumes "r \<in> set (merge_loop B static_data dynamic_data stock_list [])"
  shows "(\<exists>price sma position.
            r ''price'' = Some price \<and> r ''sma'' = Some sma \<and>
            r ''position'' = Some (PStr position)) \<and>
     (\<forall>sma p pv sv.
        r ''price'' = Some (PStr p) \<and> r ''sma'' = Some sma \<and>
        p \<noteq> ''N/A'' \<and> sma \<notin> {PNone, PStr [], PInt 0, PFloat (Fin 0), PFloat NegZero} \<and>
        float_str B (filter (\<lambda>c. c \<noteq> CHR '','') p) = Some pv \<and>
        float_str B (filter (\<lambda>c. c \<noteq> CHR '','') (field_text B (Some sma))) = Some sv \<longrightarrow>
        r ''position'' =
          Some (PStr (if num_lt sv pv then ''Above SMA'' else ''Below SMA''))) \<and>
     (\<forall>price sma.
        r ''price'' = Some price \<and> r ''sma'' = Some sma \<and>
        ((\<forall>p. price = PStr p \<longrightarrow>
            p = ''N/A'' \<or> float_str B (filter (\<lambda>c. c \<noteq> CHR '','') p) = None) \<or>
         sma \<in> {PNone, PStr [], PInt 0, PFloat (Fin 0), PFloat NegZero} \<or>
         float_str B (filter (\<lambda>c. c \<noteq> CHR '','') (field_text B (Some sma))) = None) \<longrightarrow>
        r ''position'' = Some (PStr ''N/A''))"
proof -
  from assms obtain symbol where r: "r = merge_record B static_data dynamic_data symbol"
    by (auto simp: merge_loop_map)
  define price0 where
    "price0 = dict_get_default (case dynamic_data symbol of None \<Rightarrow> Map.empty | Some x \<Rightarrow> x)
       ''price'' (PStr ''N/A'')"
  define sma0 where
    "sma0 = dict_get (case static_data symbol of None \<Rightarrow> Map.empty | Some x \<Rightarrow> x) ''sma''"
  have fields: "r ''price'' = Some price0" "r ''sma'' = Some sma0"
    "r ''position'' = Some (PStr (position_of B price0 sma0))"
    unfolding r price0_def sma0_def by (rule merge_record_fields)+
  have exist: "\<exists>price sma position.
      r ''price'' = Some price \<and> r ''sma'' = Some sma \<and> r ''position'' = Some (PStr position)"
    using fields by (intro exI conjI)
  have known: "r ''position'' =
      Some (PStr (if num_lt sv pv then ''Above SMA'' else ''Below SMA''))"
    if a: "r ''price'' = Some (PStr p) \<and> r ''sma'' = Some sma \<and>
        p \<noteq> ''N/A'' \<and> sma \<notin> {PNone, PStr [], PInt 0, PFloat (Fin 0), PFloat NegZero} \<and>
        float_str B (filter (\<lambda>c. c \<noteq> CHR '','') p) = Some pv \<and>
        float_str B (filter (\<lambda>c. c \<noteq> CHR '','') (field_text B (Some sma))) = Some sv"
    for sma p pv sv
  proof -
    from a fields have v: "price0 = PStr p" "sma0 = sma" by simp_all
    from a have "truthy sma" unfolding truthy_iff by simp
    with a position_of_numeric[of p sma B pv sv]
    have "position_of B (PStr p) sma = (if num_lt sv pv then ''Above SMA'' else ''Below SMA'')"
      by simp
    then show ?thesis unfolding fields(3) v by simp
  qed
  have unknown: "r ''position'' = Some (PStr ''N/A'')"
    if a: "r ''price'' = Some price \<and> r ''sma'' = Some sma \<and>
        ((\<forall>p. price = PStr p \<longrightarrow>
            p = ''N/A'' \<or> float_str B (filter (\<lambda>c. c \<noteq> CHR '','') p) = None) \<or>
         sma \<in> {PNone, PStr [], PInt 0, PFloat (Fin 0), PFloat NegZero} \<or>
         float_str B (filter (\<lambda>c. c \<noteq> CHR '','') (field_text B (Some sma))) = None)"
    for price sma
  proof -
    from a fields have v: "price0 = price" "sma0 = sma" by simp_all
    from a have "(\<forall>p. price = PStr p \<longrightarrow>
          p = ''N/A'' \<or> float_str B (filter (\<lambda>c. c \<noteq> CHR '','') p) = None) \<or>
      \<not> truthy sma \<or>
      float_str B (filter (\<lambda>c. c \<noteq> CHR '','') (field_text B (Some sma))) = None"
      unfolding truthy_iff by simp
    then have "position_of B price sma = ''N/A''"
      by (rule position_of_unknown)
    then show ?thesis unfolding fields(3) v by simp
  qed
  from exist known unknown show ?thesis
    by (intro conjI allI impI)
qed

lemma three_fields:
  "merge_record sample_py static_three dynamic_three ''AAPL'' ''price'' = Some (PStr ''1,150.00'')"
  "merge_record sample_py static_three dynamic_three ''AAPL'' ''sma'' = Some (PFloat (Fin 140.5))"
  "merge_record sample_py static_three dynamic_three ''LOWP'' ''price'' = Some (PStr ''999'')"
  "merge_record sample_py static_three dynamic_three ''LOWP'' ''sma'' = Some (PStr ''1,000.5'')"
  "merge_record sample_py static_three dynamic_three ''NOSMA'' ''price'' = Some (PStr ''10.00'')"
  "merge_record sample_py static_three dynamic_three ''NOSMA'' ''sma'' = Some PNone"
  unfolding merge_record_fields
  by (simp_all add: static_three_def dynamic_three_def dict_get_def dict_get_default_def)

theorem position_rule_witness:
  "merge_record sample_py static_three dynamic_three ''AAPL''
     \<in> set (merge_loop sample_py static_three dynamic_three [''AAPL'', ''LOWP'', ''NOSMA''] [])
   \<and> merge_record sample_py static_three dynamic_three ''LOWP''
     \<in> set (merge_loop sample_py static_three dynamic_three [''AAPL'', ''LOWP'', ''NOSMA''] [])
   \<and> merge_record sample_py static_three dynamic_three ''NOSMA''
     \<in> set (merge_loop sample_py static_three dynamic_three [''AAPL'', ''LOWP'', ''NOSMA''] [])
   \<and> merge_record sample_py static_three dynamic_three ''AAPL'' ''position'' =
       Some (PStr ''Above SMA'')
   \<and> merge_record sample_py static_three dynamic_three ''LOWP'' ''position'' =
       Some (PStr ''Below SMA'')
   \<and> merge_record sample_py static_three dynamic_three ''NOSMA'' ''position'' =
       Some (PStr ''N/A'')"
proof -
  have mem: "merge_record sample_py static_three dynamic_three ''AAPL''
     \<in> set (merge_loop sample_py static_three dynamic_three [''AAPL'', ''LOWP'', ''NOSMA''] [])"
    "merge_record sample_py static_three dynamic_three ''LOWP''
     \<in> set (merge_loop sample_py static_three dynamic_three [''AAPL'', ''LOWP'', ''NOSMA''] [])"
    "merge_record sample_py static_three dynamic_three ''NOSMA''
     \<in> set (merge_loop sample_py static_three dynamic_three [''AAPL'', ''LOWP'', ''NOSMA''] [])"
    unfolding merge_loop_map by (simp_all only: append_Nil list.map list.set insert_iff simp_thms)
  have above: "merge_record sample_py static_three dynamic_three ''AAPL'' ''position'' =
      Some (PStr (if num_lt (Fin 140.5) (Fin 1150) then ''Above SMA'' else ''Below SMA''))"
    by (rule position_rule[OF mem(1), THEN conjunct2, THEN conjunct1, rule_format,
          of "''1,150.00''" "PFloat (Fin 140.5)" "Fin 1150" "Fin 140.5"])
      (simp add: three_fields sample_fields float_text_def dec_defs)
  have below: "merge_record sample_py static_three dynamic_three ''LOWP'' ''position'' =
      Some (PStr (if num_lt (Fin 1000.5) (Fin 999) then ''Above SMA'' else ''Below SMA''))"
    by (rule position_rule[OF mem(2), THEN conjunct2, THEN conjunct1, rule_format,
          of "''999''" "PStr ''1,000.5''" "Fin 999" "Fin 1000.5"])
      (simp add: three_fields sample_fields float_text_def dec_defs)
  have unknown: "merge_record sample_py static_three dynamic_three ''NOSMA'' ''position'' =
      Some (PStr ''N/A'')"
    by (rule position_rule[OF mem(3), THEN conjunct2, THEN conjunct2, rule_format,
          of "PStr ''10.00''" PNone])
      (simp add: three_fields)
  from above have above': "merge_record sample_py static_three dynamic_three ''AAPL'' ''position'' =
      Some (PStr ''Above SMA'')"
    by (simp add: num_lt_def)
  from below have below': "merge_record sample_py static_three dynamic_three ''LOWP'' ''position'' =
      Some (PStr ''Below SMA'')"
    by (simp add: num_lt_def)
  from mem above' below' unknown show ?thesis
    by (intro conjI)
qed

text \<open>
  C3, as stated: whenever price and moving average both convert to numbers the position
  is Above or Below. The guard \<^verbatim>\<open>if price != "N/A" and sma\<close> tests the truth value of the
  moving average, and the number 0 is false: with price 5.00 and average 0.0 both
  convert, 5 > 0, and the position is \<^verbatim>\<open>N/A\<close>.
\<close>

theorem zero_average_counterexample:
  "merge_record sample_py static_zero dynamic_zero ''ZERO'' ''price'' = Some (PStr ''5.00'')
   \<and> float_str sample_py (filter (\<lambda>c. c \<noteq> CHR '','') ''5.00'') = Some (Fin 5)
   \<and> merge_record sample_py static_zero dynamic_zero ''ZERO'' ''sma'' = Some (PFloat (Fin 0))
   \<and> float_str sample_py
       (filter (\<lambda>c. c \<noteq> CHR '','') (field_text sample_py (Some (PFloat (Fin 0))))) =
       Some (Fin 0)
   \<and> num_lt (Fin 0) (Fin 5)
   \<and> merge_record sample_py static_zero dynamic_zero ''ZERO'' ''position'' = Some (PStr ''N/A'')"
proof -
  have f: "merge_record sample_py static_zero dynamic_zero ''ZERO'' ''price'' = Some (PStr ''5.00'')"
    "merge_record sample_py static_zero dynamic_zero ''ZERO'' ''sma'' = Some (PFloat (Fin 0))"
    unfolding merge_record_fields(1,2)
    by (simp_all add: static_zero_def dynamic_zero_def dict_get_def dict_get_default_def)
  have pos: "merge_record sample_py static_zero dynamic_zero ''ZERO'' ''position'' =
      Some (PStr ''N/A'')"
    unfolding merge_record_fields(3)
    by (simp add: static_zero_def dynamic_zero_def dict_get_def dict_get_default_def
        position_of_def is_zero_def)
  have conv: "float_str sample_py (filter (\<lambda>c. c \<noteq> CHR '','') ''5.00'') = Some (Fin 5)"
    "float_str sample_py
       (filter (\<lambda>c. c \<noteq> CHR '','') (field_text sample_py (Some (PFloat (Fin 0))))) =
       Some (Fin 0)"
    by (simp_all add: sample_fields float_text_def dec_defs)
  from f pos conv show ?thesis by (simp add: num_lt_def)
qed

subsection \<open>The statistics record\<close>

lemma is_stats_merge_record:
  "is_stats (merge_record B s d symbol) \<longleftrightarrow> symbol = STATS_MARKER"
  by (simp add: is_stats_def merge_record_def Let_def)

lemma classify_stats: "is_stats stock \<Longrightarrow> classify B cfg stock = (False, False)"
  by (simp add: classify_def)

lemma ranker_excludes_stats:
  assumes "filter_opportunities B filtered_data cfg = Inr (long, short)" and "is_stats stock"
  shows "stock \<notin> set long \<and> stock \<notin> set short"
  using filter_opportunities_sets[OF assms(1)] classify_stats[OF assms(2)] by simp

section \<open>Properties of the price scraper\<close>

lemma text_or_na_value:
  "text_or_na B el = Inr (case el of None \<Rightarrow> PStr ''N/A'' | Some t \<Rightarrow> PStr (str_strip B t))"
  by (cases el) (simp_all add: text_or_na_def inner_text_def)

lemma scrape_symbol_value:
  "scrape_symbol B page =
     Inr [''price'' \<mapsto>
            (case page ''span.price-qWcO4bp9'' of
               None \<Rightarrow> PStr ''N/A'' | Some t \<Rightarrow> PStr (str_strip B t)),
          ''premarket_price'' \<mapsto>
            (case page ''span.price-d1N3lNBX'' of
               None \<Rightarrow> PStr ''N/A'' | Some t \<Rightarrow> PStr (str_strip B t)),
          ''premarket_change'' \<mapsto> PStr ''N/A'',
          ''premarket_change_percent'' \<mapsto>
            (case page ''span.changePercent-d1N3lNBX'' of
               None \<Rightarrow> PStr ''N/A'' | Some t \<Rightarrow> PStr (str_strip B t))]"
  by (simp add: scrape_symbol_def text_or_na_value)


lemma scrape_loop_returns:
  "\<exists>res t. scrape_loop B env i stock_list acc = Inr (res, t)"
proof (induction stock_list arbitrary: i acc)
  case Nil
  show ?case by (cases acc) simp
next
  case (Cons symbol rest)
  obtain res t where acc: "acc = (res, t)" by (cases acc)
  show ?case
    unfolding acc using Cons.IH by (simp add: scrape_symbol_value)
qed



lemma fetch_dynamic_data_returns:
  assumes "launch_ok env"
  shows "\<exists>results fetch_secs avg_secs.
     fetch_dynamic_data B env stock_list = Inr (results, overall_time env, avg_secs) \<and>
     scrape_loop B env 0 stock_list (Map.empty, 0) = Inr (results, fetch_secs)"
proof -
  from scrape_loop_returns[of B env 0 stock_list "(Map.empty, 0)"] obtain res t where
    loop: "scrape_loop B env 0 stock_list (Map.empty, 0) = Inr (res, t)"
    by blast
  show ?thesis
    using assms by (cases "stock_list = []") (simp_all add: fetch_dynamic_data_def loop py_truediv_def)
qed






text \<open>
  C10: for the empty symbol list the scrape returns (once the browser session is up) the
  empty result, and the average 0; the division by the length of the list is made for
  a non-empty list only, so no run of the scrape ends in a division by zero.
\<close>

theorem empty_scrape:
  "fetch_dynamic_data B env [] =
     (if launch_ok env then Inr (Map.empty, overall_time env, 0) else Inl BrowserError)
   \<and> fetch_dynamic_data B env stock_list \<noteq> Inl ZeroDivisionError"
proof -
  have "fetch_dynamic_data B env stock_list \<noteq> Inl ZeroDivisionError"
  proof (cases "launch_ok env")
    case True
    from fetch_dynamic_data_returns[OF True, of B stock_list] show ?thesis by auto
  next
    case False
    then show ?thesis by (simp add: fetch_dynamic_data_def)
  qed
  then show ?thesis
    by (simp add: fetch_dynamic_data_def)
qed

section \<open>The statistics record in the output\<close>

lemma quiet_scrape:
  "fetch_dynamic_data B quiet_env [''AAPL''] =
     Inr ([''AAPL'' \<mapsto>
            [''price'' \<mapsto> PStr ''N/A'', ''premarket_price'' \<mapsto> PStr ''N/A'',
             ''premarket_change'' \<mapsto> PStr ''N/A'',
             ''premarket_change_percent'' \<mapsto> PStr ''N/A'']], 2, 1)"
  by (simp add: fetch_dynamic_data_def quiet_env_def py_truediv_def scrape_symbol_value)

lemma merged_plain:
  "classify B Map.empty (merge_record B Map.empty dyn ''AAPL'') = (False, False)"
  by (simp add: classify_def merge_record_def Let_def stock_tests)

text \<open>
  C4: the output of a dynamic run holds the statistics record exactly once, and the
  ranker leaves that record out of both lists. The second part holds
  (\<open>ranker_excludes_stats\<close>), and \<^verbatim>\<open>fetch_all_stocks\<close> appends the record
  (\<open>fetch_all_stocks_one_stats\<close> below). \<^verbatim>\<open>run_dynamic_analysis\<close> receives the two timings
  from the scrape and never uses them: the list it hands to the writers and to the ranker
  holds the merged records only. For the one symbol AAPL it has one record and no
  statistics record.
\<close>

theorem dynamic_run_without_stats:
  "(case run_dynamic_analysis B one_list_conf quiet_env None of
      Inr (Some (final_results, opportunities)) \<Rightarrow>
        length final_results = 1 \<and> filter is_stats final_results = [] \<and>
        opportunities = Inr ([], [])
    | _ \<Rightarrow> False)"
  by (simp add: run_dynamic_analysis_def one_list_conf_def quiet_scrape filter_opportunities_def
      merged_plain py_sorted_nil is_stats_merge_record STATS_MARKER_def)

lemma fetch_all_stocks_one_stats:
  assumes "fetch_all_stocks B ta env fmt stock_list = Inr rs"
    and "STATS_MARKER \<notin> set stock_list"
  shows "length (filter is_stats rs) = 1"
proof -
  from assms(1) obtain s d a b where
    rs: "rs = map (merge_record B s d) stock_list @
      [[''symbol'' \<mapsto> PStr STATS_MARKER, ''dynamic_scrape_total_seconds'' \<mapsto> PStr a,
        ''dynamic_scrape_avg_seconds'' \<mapsto> PStr b]]"
    by (auto simp: fetch_all_stocks_def Let_def merge_loop_map split: sum.splits)
  have "filter is_stats (map (merge_record B s d) stock_list) = []"
    using assms(2) by (auto simp: filter_empty_conv is_stats_merge_record)
  then show ?thesis
    unfolding rs by (simp add: is_stats_def)
qed

section \<open>Properties of the indicator fetch\<close>

text \<open>
  C8: when no attempt returns both values, both fields of the entry are unset. The loop
  assigns \<^verbatim>\<open>rsi\<close> and \<^verbatim>\<open>sma\<close> from each analysis before it tests them, so the values of
  an analysis that lacks one of the two stay in the variables. Here the only analysis
  returned has the RSI 55 and no SMA, the other exchange raises "not found", and the
  entry holds the RSI 55.
\<close>

theorem partial_analysis_kept:
  "get_symbol_variants ''XYZ'' = [''XYZ'']
   \<and> partial_service ''XYZ'' NASDAQ = Analysis (Some (Fin 55)) None
   \<and> partial_service ''XYZ'' NYSE = NotFound
   \<and> fetch_static_data partial_service [''XYZ''] ''XYZ'' =
       Some [''rsi'' \<mapsto> PFloat (Fin 55), ''sma'' \<mapsto> PNone]"
  by (simp add: fetch_static_data_def fetch_symbol_def get_symbol_variants_def partial_service_def
      opt_val_def)

subsection \<open>The first attempt that returns both values\<close>

text \<open>
  When some lookup returns both values, the entry of the symbol holds the values of
  the first such lookup.
\<close>

lemma try_variants_first:
  assumes "find (\<lambda>(v, e). has_both (ta v e)) (attempts variants) = Some (v, e)"
  shows "\<exists>r s. ta v e = Analysis (Some r) (Some s) \<and> try_variants ta variants st = (Some r, Some s)"
  using assms
proof (induction variants arbitrary: st)
  case Nil
  then show ?case by (simp add: attempts_def)
next
  case (Cons x xs)
  obtain a b where st: "st = (a, b)" by (cases st)
  show ?case
  proof (cases "has_both (ta x NASDAQ)")
    case True
    then obtain r s where "ta x NASDAQ = Analysis (Some r) (Some s)"
      by (cases "ta x NASDAQ" rule: has_both.cases) auto
    with Cons.prems True show ?thesis
      by (auto simp: attempts_def st)
  next
    case nas: False
    show ?thesis
    proof (cases "has_both (ta x NYSE)")
      case True
      then obtain r s where ny: "ta x NYSE = Analysis (Some r) (Some s)"
        by (cases "ta x NYSE" rule: has_both.cases) auto
      with Cons.prems nas True show ?thesis
        by (cases "ta x NASDAQ" rule: has_both.cases) (auto simp: attempts_def st)
    next
      case False
      with nas Cons.prems have rest: "find (\<lambda>(v, e). has_both (ta v e)) (attempts xs) = Some (v, e)"
        by (simp add: attempts_def)
      from nas False obtain a' b' where
        "try_exchanges ta x [NASDAQ, NYSE] (a, b) = (a', b', False)"
        by (cases "ta x NASDAQ" rule: has_both.cases; cases "ta x NYSE" rule: has_both.cases) auto
      then have "try_variants ta (x # xs) st = try_variants ta xs (a', b')"
        by (simp add: st)
      with Cons.IH[OF rest, of "(a', b')"] show ?thesis by simp
    qed
  qed
qed

lemma fetch_first_success:
  assumes "find (\<lambda>(v, e). has_both (ta v e)) (attempts (get_symbol_variants symbol)) = Some (v, e)"
  shows "\<exists>r s. ta v e = Analysis (Some r) (Some s) \<and>
     fetch_symbol ta symbol = [''rsi'' \<mapsto> PFloat r, ''sma'' \<mapsto> PFloat s]"
  using try_variants_first[OF assms, of "(None, None)"]
  by (auto simp: fetch_symbol_def opt_val_def)

lemma static_loop_lookup:
  "static_loop ta stock_list m symbol =
     (if symbol \<in> set stock_list then Some (fetch_symbol ta symbol) else m symbol)"
  by (induction stock_list arbitrary: m) auto

lemma fetch_static_data_entry:
  "symbol \<in> set stock_list \<Longrightarrow> fetch_static_data ta stock_list symbol = Some (fetch_symbol ta symbol)"
  by (simp add: fetch_static_data_def static_loop_lookup)

end
